theory Spec2Isabelle
  imports Complex_Main "HOL-Library.Sublist"
begin

section \<open>JavaScript values and string operations\<close>

text \<open>
  Values have the types the TypeScript source declares for them. A string is its sequence
  of code units, and \<open>length\<close> is the \<open>.length\<close> of the source; the code units of this
  development are those below 256 (ASCII and Latin-1). An exception is a value of
  \<open>js_error\<close>, and a computation that may throw returns \<open>js_error + 'a\<close> with \<open>Inl\<close> for
  the exception. One request is followed from start to end: the interleaving of several
  requests at the \<open>await\<close> points is not part of the model.
\<close>

datatype js_error = TypeError | SyntaxError | ServiceError string

text \<open>\<open>try { body } catch (error) { handler }\<close>\<close>

definition try_catch :: "js_error + 'a \<Rightarrow> (js_error \<Rightarrow> 'a) \<Rightarrow> 'a" where
  "try_catch body handler = (case body of Inl e \<Rightarrow> handler e | Inr v \<Rightarrow> v)"

text \<open>
  \<open>String.prototype.substring(a, b)\<close> on non-negative integers: both ends are clamped to
  the length and swapped when out of order.
\<close>

definition substring :: "string \<Rightarrow> nat \<Rightarrow> nat \<Rightarrow> string" where
  "substring s a b =
     (let a' = min a (length s); b' = min b (length s)
      in take (max a' b' - min a' b') (drop (min a' b') s))"

text \<open>
  \<open>Array.prototype.slice(start)\<close>: a negative start counts from the end and stops at the
  first element.
\<close>

definition slice :: "'a list \<Rightarrow> int \<Rightarrow> 'a list" where
  "slice xs start =
     (let len = int (length xs);
          k = (if start < 0 then max (len + start) 0 else min start len)
      in drop (nat k) xs)"

text \<open>\<open>Array.prototype.join(separator)\<close> on an array of strings.\<close>

fun join :: "string \<Rightarrow> string list \<Rightarrow> string" where
  "join sep [] = []"
| "join sep [x] = x"
| "join sep (x # y # ys) = x @ sep @ join sep (y # ys)"

text \<open>
  \<open>String.prototype.toLowerCase\<close>, code unit by code unit: below 256 the letters with a
  lower-case form are A to Z and the Latin-1 capitals 0xC0 to 0xDE without the
  multiplication sign 0xD7, and the lower-case form is 32 further.
\<close>

definition toLowerCase_unit :: "char \<Rightarrow> char" where
  "toLowerCase_unit c =
     (let n = (of_char c :: nat)
      in if (65 \<le> n \<and> n \<le> 90) \<or> (192 \<le> n \<and> n \<le> 222 \<and> n \<noteq> 215)
         then char_of (n + 32) else c)"

definition toLowerCase :: "string \<Rightarrow> string" where
  "toLowerCase s = map toLowerCase_unit s"

text \<open>\<open>String.prototype.includes(search)\<close>: the search string starts at some position.\<close>

fun js_includes :: "string \<Rightarrow> string \<Rightarrow> bool" where
  "js_includes [] search = (search = [])"
| "js_includes (c # cs) search = (prefix search (c # cs) \<or> js_includes cs search)"

text \<open>The decimal digits of a number in a template literal: \<open>`${i + 1}`\<close>.\<close>

definition digit :: "nat \<Rightarrow> char" where
  "digit d = ''0123456789'' ! d"

fun show_nat :: "nat \<Rightarrow> string" where
  "show_nat n =
     (if n < 10 then [digit n]
      else show_nat (n div 10) @ [digit (n mod 10)])"

declare show_nat.simps [simp del]


section \<open>vectorStore.ts\<close>

subsection \<open>chunkText\<close>

text \<open>
  The loop \<open>for (let i = 0; i < text.length; i += chunkSize)\<close> with its array of chunks.
  The chunk size is a whole number, as the source's \<open>CHUNK_SIZE = 500\<close> is. With
  \<open>chunkSize = 0\<close> on a non-empty text it never ends, so the loop is a partial
  function: not returning is \<open>None\<close>.
\<close>

partial_function (option) chunkText_loop ::
  "string \<Rightarrow> nat \<Rightarrow> nat \<Rightarrow> string list \<Rightarrow> string list option" where
  "chunkText_loop text chunkSize i chunks =
     (if i < length text
      then chunkText_loop text chunkSize (i + chunkSize)
             (chunks @ [substring text i (i + chunkSize)])
      else Some chunks)"

declare chunkText_loop.simps [code]

definition chunkText :: "string \<Rightarrow> nat \<Rightarrow> string list option" where
  "chunkText text chunkSize = chunkText_loop text chunkSize 0 []"

subsection \<open>getRelevantChunks\<close>

text \<open>
  The vector index and the embedding model are outside the repository. What they answer is
  a parameter: \<open>embed\<close> is \<open>getLocalEmbeddings\<close> on the one query text, \<open>query\<close> is
  \<open>index.query\<close>; either may throw. A match may lack its metadata, a metadata field or its
  score; \<open>results.matches\<close> may be absent.
\<close>

record match_metadata =
  meta_content :: "string option"
  meta_source :: "string option"

record pinecone_match =
  metadata :: "match_metadata option"
  match_score :: "real option"

record retrieved_chunk =
  chunk_content :: string
  chunk_source :: string
  chunk_score :: real

record vector_index =
  embed :: "string \<Rightarrow> js_error + real list"
  query :: "real list \<Rightarrow> nat \<Rightarrow> js_error + pinecone_match list option"

text \<open>\<open>value || fallback\<close> on an optional string: absent and empty are both falsy.\<close>

definition string_or :: "string option \<Rightarrow> string \<Rightarrow> string" where
  "string_or v fallback = (case v of None \<Rightarrow> fallback | Some s \<Rightarrow> if s = [] then fallback else s)"

definition match_to_chunk :: "pinecone_match \<Rightarrow> retrieved_chunk" where
  "match_to_chunk m =
     \<lparr> chunk_content = string_or (Option.bind (metadata m) meta_content) [],
       chunk_source = string_or (Option.bind (metadata m) meta_source) ''unknown'',
       chunk_score = (case match_score m of None \<Rightarrow> 0 | Some s \<Rightarrow> if s = 0 then 0 else s) \<rparr>"

text \<open>The \<open>catch\<close> of \<open>getRelevantChunks\<close> logs the error and throws it again.\<close>

definition getRelevantChunks ::
  "vector_index \<Rightarrow> string \<Rightarrow> nat \<Rightarrow> js_error + retrieved_chunk list" where
  "getRelevantChunks index q topK =
     try_catch
       (case embed index q of
          Inl e \<Rightarrow> Inl e
        | Inr queryEmbedding \<Rightarrow>
            (case query index queryEmbedding topK of
               Inl e \<Rightarrow> Inl e
             | Inr None \<Rightarrow> Inr (Inr [])
             | Inr (Some matches) \<Rightarrow>
                 if matches = [] then Inr (Inr []) else Inr (Inr (map match_to_chunk matches))))
       (\<lambda>error. Inl error)"


section \<open>agent-server.ts\<close>

subsection \<open>Session memory\<close>

record session_message =
  role :: string
  content :: string

text \<open>
  \<open>sessionMemory\<close> is an object literal used as a dictionary. Its own properties are the
  sessions; a key that is not an own property is looked up in \<open>Object.prototype\<close>, whose
  members (functions, and the prototype object for \<open>__proto__\<close>) are truthy and not
  iterable.
\<close>

type_synonym session_memory = "string \<rightharpoonup> session_message list"

definition Object_prototype_keys :: "string list" where
  "Object_prototype_keys =
     [''constructor'', ''__defineGetter__'', ''__defineSetter__'', ''hasOwnProperty'',
      ''__lookupGetter__'', ''__lookupSetter__'', ''isPrototypeOf'', ''propertyIsEnumerable'',
      ''toString'', ''valueOf'', ''__proto__'', ''toLocaleString'']"

datatype session_value = Messages "session_message list" | PrototypeMember

text \<open>\<open>sessionMemory[sessionId] || []\<close>\<close>

definition getSessionMessages :: "session_memory \<Rightarrow> string \<Rightarrow> session_value" where
  "getSessionMessages sessionMemory sessionId =
     (case sessionMemory sessionId of
        Some messages \<Rightarrow> Messages messages
      | None \<Rightarrow> if sessionId \<in> set Object_prototype_keys then PrototypeMember else Messages [])"

text \<open>
  \<open>sessionMemory[sessionId] = [...(sessionMemory[sessionId] || []), message]\<close>: the spread
  of a value that is not iterable throws a TypeError before the assignment (the build
  target is ES2022, so the spread is the native one).
\<close>

definition addMessageToSession ::
  "session_memory \<Rightarrow> string \<Rightarrow> session_message \<Rightarrow> js_error + session_memory" where
  "addMessageToSession sessionMemory sessionId message =
     (case getSessionMessages sessionMemory sessionId of
        PrototypeMember \<Rightarrow> Inl TypeError
      | Messages messages \<Rightarrow> Inr (sessionMemory(sessionId \<mapsto> messages @ [message])))"

subsection \<open>Plugins\<close>

text \<open>
  A plugin is an asynchronous function from the message to its output, which may reject.
  The registry of the source holds the weather plugin; the degree sign is the code unit
  0xB0.
\<close>

type_synonym plugin = "string \<Rightarrow> js_error + string"

definition weather :: plugin where
  "weather location = Inr (''Weather in '' @ location @ '': 24'' @ [CHR 0xB0] @ ''C, Sunny'')"

definition plugins :: "string \<rightharpoonup> plugin" where
  "plugins = [''weather'' \<mapsto> weather]"

text \<open>
  \<open>detectPlugin\<close>: on a string neither \<open>toLowerCase\<close> nor \<open>includes\<close> throws; the \<open>catch\<close>
  answers \<open>null\<close>.
\<close>

definition detectPlugin :: "string \<Rightarrow> string option" where
  "detectPlugin message =
     try_catch
       (Inr (if js_includes (toLowerCase message) ''weather'' then Some ''weather'' else None))
       (\<lambda>error. None)"

subsection \<open>generateWithGemini\<close>

text \<open>
  The generation service is outside the repository. \<open>fetch\<close> is a parameter: it throws, or
  answers a response with its \<open>ok\<close> flag, what \<open>response.text()\<close> gives and what
  \<open>response.json()\<close> gives (a SyntaxError on a body that is not JSON, or the parsed value).

  The function is modelled twice. \<open>generateWithGemini_json\<close>, further down, is the source
  as it runs: the parsed body is any JSON value and the text found is returned whatever
  it is. \<open>generateWithGemini\<close>, here, is the same function on the responses that have
  the declared types, where the function returns the \<open>string\<close> its signature promises:
  the data has the shape the optional chain
  \<open>data.candidates?.[0]?.content?.parts?.[0]?.text\<close> walks, every field may be absent or
  \<open>null\<close> (\<open>None\<close>), an array may be empty or hold \<open>null\<close>, and the text is a string.
  The rest of the server, typed on strings, is built on it.
\<close>

record gemini_part =
  part_text :: "string option"

record gemini_content =
  parts :: "gemini_part option list option"

record gemini_candidate =
  candidate_content :: "gemini_content option"

record gemini_data =
  candidates :: "gemini_candidate option list option"

record gemini_response =
  ok :: bool
  status :: nat
  response_text :: "js_error + string"
  response_json :: "js_error + gemini_data option"

text \<open>The two \<open>parts\<close> of the request body; the model name and the key are constants.\<close>

record gemini_request =
  instruction_part :: string
  question_part :: string

type_synonym fetch = "gemini_request \<Rightarrow> js_error + gemini_response"

text \<open>\<open>xs?.[0]\<close>\<close>

definition first_element :: "'a option list \<Rightarrow> 'a option" where
  "first_element xs = (case xs of [] \<Rightarrow> None | x # _ \<Rightarrow> x)"

definition generatedText :: "gemini_data \<Rightarrow> string option" where
  "generatedText data =
     Option.bind (Option.bind (Option.bind (Option.bind (Option.bind
       (candidates data) first_element) candidate_content) parts) first_element) part_text"

definition status_fallback :: string where
  "status_fallback =
     ''Sorry, I'' @ [CHR 0x27] @ ''m having trouble generating a response right now.''"

definition format_fallback :: string where
  "format_fallback = ''I received an unexpected response format from the AI service.''"

definition error_fallback :: string where
  "error_fallback = ''Sorry, I encountered an error while generating a response.''"

definition gemini_request_of :: "string \<Rightarrow> string \<Rightarrow> string \<Rightarrow> gemini_request" where
  "gemini_request_of prompt message ctx =
     \<lparr> instruction_part = prompt @ [CHR 0x0A, CHR 0x0A] @ ctx,
       question_part = ''Question: '' @ message \<rparr>"

text \<open>
  The result is the returned string with the requests sent to the generation service, so
  that a caller's having called the service, and with what, can be stated.
\<close>

definition generateWithGemini ::
  "fetch \<Rightarrow> string \<Rightarrow> string \<Rightarrow> string \<Rightarrow> string \<times> gemini_request list" where
  "generateWithGemini fetch prompt message ctx =
     (let request = gemini_request_of prompt message ctx
      in (try_catch
            (case fetch request of
               Inl e \<Rightarrow> Inl e
             | Inr response \<Rightarrow>
                 if \<not> ok response
                 then (case response_text response of
                         Inl e \<Rightarrow> Inl e
                       | Inr errorBody \<Rightarrow> Inr status_fallback)
                 else (case response_json response of
                         Inl e \<Rightarrow> Inl e
                       | Inr None \<Rightarrow> Inl TypeError
                       | Inr (Some data) \<Rightarrow>
                           (case generatedText data of
                              None \<Rightarrow> Inr format_fallback
                            | Some t \<Rightarrow> if t = [] then Inr format_fallback else Inr t)))
            (\<lambda>error. error_fallback),
          [request]))"

subsection \<open>generateWithGemini on any parsed body\<close>

text \<open>
  \<open>const data = await response.json()\<close> is any JSON value. Numbers are read as reals:
  the code only asks whether one is zero.
\<close>

datatype json = JNull | JBool bool | JNum real | JStr string | JArr "json list"
  | JObj "(string \<times> json) list"

text \<open>
  \<open>v.name\<close> on a value that is neither \<open>null\<close> nor \<open>undefined\<close>, for a name that no
  prototype defines, as the names \<open>candidates\<close>, \<open>content\<close>, \<open>parts\<close> and \<open>text\<close> of the
  chain: an object answers its own member (the last one of that name in the body), every
  other value \<open>undefined\<close> (\<open>None\<close>).
\<close>

definition property :: "json \<Rightarrow> string \<Rightarrow> json option" where
  "property v name = (case v of JObj members \<Rightarrow> map_of (rev members) name | _ \<Rightarrow> None)"

text \<open>
  \<open>v[0]\<close>: the first element of an array, the first code unit of a string, the member
  \<open>0\<close> of an object.
\<close>

definition element0 :: "json \<Rightarrow> json option" where
  "element0 v =
     (case v of
        JArr xs \<Rightarrow> (case xs of [] \<Rightarrow> None | x # _ \<Rightarrow> Some x)
      | JStr s \<Rightarrow> (case s of [] \<Rightarrow> None | c # _ \<Rightarrow> Some (JStr [c]))
      | JObj members \<Rightarrow> map_of (rev members) ''0''
      | _ \<Rightarrow> None)"

text \<open>\<open>v?.access\<close>: \<open>undefined\<close> when \<open>v\<close> is \<open>undefined\<close> or \<open>null\<close>.\<close>

definition optional :: "json option \<Rightarrow> (json \<Rightarrow> json option) \<Rightarrow> json option" where
  "optional v access = (case v of None \<Rightarrow> None | Some JNull \<Rightarrow> None | Some x \<Rightarrow> access x)"

text \<open>
  \<open>data.candidates?.[0]?.content?.parts?.[0]?.text\<close>: the first access is a plain one
  and throws a TypeError on \<open>null\<close>.
\<close>

definition generatedText_json :: "json \<Rightarrow> js_error + json option" where
  "generatedText_json data =
     (case data of
        JNull \<Rightarrow> Inl TypeError
      | _ \<Rightarrow>
          Inr (optional (optional (optional (optional (optional
                 (property data ''candidates'') element0)
                 (\<lambda>candidate. property candidate ''content''))
                 (\<lambda>c. property c ''parts'')) element0)
                 (\<lambda>part. property part ''text'')))"

text \<open>What \<open>!generatedText\<close> negates.\<close>

definition truthy :: "json \<Rightarrow> bool" where
  "truthy v =
     (case v of
        JNull \<Rightarrow> False | JBool b \<Rightarrow> b | JNum n \<Rightarrow> n \<noteq> 0 | JStr s \<Rightarrow> s \<noteq> []
      | JArr xs \<Rightarrow> True | JObj members \<Rightarrow> True)"

record json_response =
  json_ok :: bool
  json_status :: nat
  json_text :: "js_error + string"
  json_body :: "js_error + json"

type_synonym json_fetch = "gemini_request \<Rightarrow> js_error + json_response"

text \<open>
  The result is a JavaScript value: a fallback string, or the text found, which the
  source returns without looking at its type.
\<close>

definition generateWithGemini_json ::
  "json_fetch \<Rightarrow> string \<Rightarrow> string \<Rightarrow> string \<Rightarrow> json \<times> gemini_request list" where
  "generateWithGemini_json fetch prompt message ctx =
     (let request = gemini_request_of prompt message ctx
      in (try_catch
            (case fetch request of
               Inl e \<Rightarrow> Inl e
             | Inr response \<Rightarrow>
                 if \<not> json_ok response
                 then (case json_text response of
                         Inl e \<Rightarrow> Inl e
                       | Inr errorBody \<Rightarrow> Inr (JStr status_fallback))
                 else (case json_body response of
                         Inl e \<Rightarrow> Inl e
                       | Inr data \<Rightarrow>
                           (case generatedText_json data of
                              Inl e \<Rightarrow> Inl e
                            | Inr None \<Rightarrow> Inr (JStr format_fallback)
                            | Inr (Some t) \<Rightarrow>
                                if \<not> truthy t then Inr (JStr format_fallback) else Inr t)))
            (\<lambda>error. JStr error_fallback),
          [request]))"

text \<open>The typed response as the JSON value it stands for.\<close>

definition nullable :: "('a \<Rightarrow> json) \<Rightarrow> 'a option \<Rightarrow> json" where
  "nullable f v = (case v of None \<Rightarrow> JNull | Some x \<Rightarrow> f x)"

definition json_of_part :: "gemini_part \<Rightarrow> json" where
  "json_of_part p = JObj (case part_text p of None \<Rightarrow> [] | Some t \<Rightarrow> [(''text'', JStr t)])"

definition json_of_content :: "gemini_content \<Rightarrow> json" where
  "json_of_content c =
     JObj (case parts c of
             None \<Rightarrow> []
           | Some ps \<Rightarrow> [(''parts'', JArr (map (nullable json_of_part) ps))])"

definition json_of_candidate :: "gemini_candidate \<Rightarrow> json" where
  "json_of_candidate c =
     JObj (case candidate_content c of
             None \<Rightarrow> []
           | Some x \<Rightarrow> [(''content'', json_of_content x)])"

definition json_of_data :: "gemini_data \<Rightarrow> json" where
  "json_of_data d =
     JObj (case candidates d of
             None \<Rightarrow> []
           | Some cs \<Rightarrow> [(''candidates'', JArr (map (nullable json_of_candidate) cs))])"

definition json_of_fetch :: "fetch \<Rightarrow> json_fetch" where
  "json_of_fetch fetch request =
     (case fetch request of
        Inl e \<Rightarrow> Inl e
      | Inr response \<Rightarrow>
          Inr \<lparr> json_ok = ok response, json_status = status response,
                json_text = response_text response,
                json_body = (case response_json response of
                               Inl e \<Rightarrow> Inl e
                             | Inr d \<Rightarrow> Inr (nullable json_of_data d)) \<rparr>)"

subsection \<open>generateRAGResponse\<close>

text \<open>
  Step 4 of the function, the context: \<open>contextParts\<close> starts empty and grows by
  \<open>push\<close>; \<open>forEach\<close> visits the elements in order with their indices.
\<close>

definition document_line :: "nat \<Rightarrow> retrieved_chunk \<Rightarrow> string" where
  "document_line i chunk =
     ''[Document '' @ show_nat (i + 1) @ '' from '' @ chunk_source chunk @ '']: '' @
     chunk_content chunk"

definition history_line :: "session_message \<Rightarrow> string" where
  "history_line msg = (if role msg = ''user'' then ''User'' else ''AI'') @ '': '' @ content msg"

fun forEach_indexed :: "('s \<Rightarrow> 'a \<Rightarrow> nat \<Rightarrow> 's) \<Rightarrow> 'a list \<Rightarrow> nat \<Rightarrow> 's \<Rightarrow> 's" where
  "forEach_indexed f [] i s = s"
| "forEach_indexed f (x # xs) i s = forEach_indexed f xs (i + 1) (f s x i)"

definition push :: "'a list \<Rightarrow> 'a \<Rightarrow> 'a list" where
  "push xs x = xs @ [x]"

definition contextParts ::
  "retrieved_chunk list \<Rightarrow> string option \<Rightarrow> session_message list \<Rightarrow> string list" where
  "contextParts relevantChunks pluginResult lastTwoMessages =
     (let parts0 = [];
          parts1 =
            (if length relevantChunks > 0
             then forEach_indexed (\<lambda>ps chunk i. push ps (document_line i chunk))
                    relevantChunks 0 (push parts0 ''Relevant Documents:'')
             else parts0);
          parts2 =
            (case pluginResult of
               None \<Rightarrow> parts1
             | Some r \<Rightarrow> if r = [] then parts1 else push parts1 (''Plugin Output: '' @ r));
          parts3 =
            (if length lastTwoMessages > 0
             then forEach_indexed (\<lambda>ps msg i. push ps (history_line msg))
                    lastTwoMessages 0 (push parts2 ''Conversation History:'')
             else parts2)
      in parts3)"

definition build_context ::
  "retrieved_chunk list \<Rightarrow> string option \<Rightarrow> session_message list \<Rightarrow> string" where
  "build_context relevantChunks pluginResult lastTwoMessages =
     join [CHR 0x0A, CHR 0x0A] (contextParts relevantChunks pluginResult lastTwoMessages)"

text \<open>The template literal of the system prompt keeps its line breaks and indentation.\<close>

definition systemPrompt :: string where
  "systemPrompt =
     ''You are a helpful AI assistant that answers questions based on the provided context.'' @
     [CHR 0x0A] @ ''      Guidelines:'' @
     [CHR 0x0A] @ ''      1. Be concise but helpful'' @
     [CHR 0x0A] @ ''      2. Use the context when relevant'' @
     [CHR 0x0A] @ ''      3. If you used a tool/plugin, mention it'' @
     [CHR 0x0A] @ ''      4. Maintain a friendly tone''"

text \<open>\<open>sessionMessages.slice(-2)\<close>: a member of the prototype has no \<open>slice\<close>.\<close>

definition lastTwoMessages :: "session_value \<Rightarrow> js_error + session_message list" where
  "lastTwoMessages sessionMessages =
     (case sessionMessages of
        PrototypeMember \<Rightarrow> Inl TypeError
      | Messages messages \<Rightarrow> Inr (slice messages (- 2)))"

text \<open>
  \<open>pluginType ? await plugins[pluginType](message) : null\<close>, over a registry: a name with
  no entry is \<open>undefined\<close>, and calling it throws.
\<close>

definition run_plugin ::
  "(string \<rightharpoonup> plugin) \<Rightarrow> string option \<Rightarrow> string \<Rightarrow> js_error + string option" where
  "run_plugin registry pluginType message =
     (case pluginType of
        None \<Rightarrow> Inr None
      | Some name \<Rightarrow>
          (case registry name of
             None \<Rightarrow> Inl TypeError
           | Some capability \<Rightarrow>
               (case capability message of Inl e \<Rightarrow> Inl e | Inr out \<Rightarrow> Inr (Some out))))"

text \<open>
  The whole body is one \<open>try\<close>; its \<open>catch\<close> returns the fixed string. The registry is a
  parameter (the source's is \<open>plugins\<close>), so that a plugin that rejects can be stated.
\<close>

definition generateRAGResponse ::
  "vector_index \<Rightarrow> (string \<rightharpoonup> plugin) \<Rightarrow> fetch \<Rightarrow> session_memory \<Rightarrow> string \<Rightarrow> string \<Rightarrow>
   string \<times> gemini_request list" where
  "generateRAGResponse index registry fetch sessionMemory message sessionId =
     try_catch
       (case getRelevantChunks index message 3 of
          Inl e \<Rightarrow> Inl e
        | Inr relevantChunks \<Rightarrow>
            (case lastTwoMessages (getSessionMessages sessionMemory sessionId) of
               Inl e \<Rightarrow> Inl e
             | Inr lastTwo \<Rightarrow>
                 (case run_plugin registry (detectPlugin message) message of
                    Inl e \<Rightarrow> Inl e
                  | Inr pluginResult \<Rightarrow>
                      Inr (generateWithGemini fetch systemPrompt message
                             (build_context relevantChunks pluginResult lastTwo)))))
       (\<lambda>error. (error_fallback, []))"

subsection \<open>POST /agent/message\<close>

text \<open>
  \<open>post_agent_message\<close> is the handler on a body that is an object, from the guard on:
  each of the two fields is absent (\<open>None\<close>) or a string. The answer is the status (200
  unless \<open>res.status\<close> set it) and the JSON object sent. \<open>agent_message_endpoint\<close>, after
  it, is the whole handler.
\<close>

record request_body =
  message_field :: "string option"
  session_id_field :: "string option"

datatype response_body = ErrorBody string | ResponseBody string

record http_response =
  status_code :: nat
  body :: response_body

text \<open>\<open>!field\<close>: an absent field and the empty string are falsy.\<close>

definition falsy :: "string option \<Rightarrow> bool" where
  "falsy field = (case field of None \<Rightarrow> True | Some s \<Rightarrow> s = [])"

definition post_agent_message ::
  "vector_index \<Rightarrow> (string \<rightharpoonup> plugin) \<Rightarrow> fetch \<Rightarrow> session_memory \<Rightarrow> request_body \<Rightarrow>
   http_response \<times> session_memory \<times> gemini_request list" where
  "post_agent_message index registry fetch sessionMemory req =
     (if falsy (message_field req) \<or> falsy (session_id_field req)
      then (\<lparr> status_code = 400,
              body = ErrorBody ''Both message and session_id are required'' \<rparr>,
            sessionMemory, [])
      else
        (let message = the (message_field req); session_id = the (session_id_field req)
         in case addMessageToSession sessionMemory session_id
                   \<lparr> role = ''user'', content = message \<rparr> of
              Inl e \<Rightarrow>
                (\<lparr> status_code = 500, body = ErrorBody ''Internal server error'' \<rparr>,
                 sessionMemory, [])
            | Inr memory1 \<Rightarrow>
                (let (response, sent) =
                       generateRAGResponse index registry fetch memory1 message session_id
                 in case addMessageToSession memory1 session_id
                           \<lparr> role = ''assistant'', content = response \<rparr> of
                      Inl e \<Rightarrow>
                        (\<lparr> status_code = 500, body = ErrorBody ''Internal server error'' \<rparr>,
                         memory1, sent)
                    | Inr memory2 \<Rightarrow>
                        (\<lparr> status_code = 200, body = ResponseBody response \<rparr>,
                         memory2, sent))))"

text \<open>
  What \<open>bodyParser.json()\<close> leaves in \<open>req.body\<close> is outside the repository: an object,
  or \<open>undefined\<close> (\<open>None\<close>) when the request had no JSON body to parse (body-parser 2
  leaves it so; body-parser 1 put an empty object there). The first statement of the
  \<open>try\<close>, \<open>const { message, session_id } = req.body\<close>, throws a TypeError on
  \<open>undefined\<close>, and the \<open>catch\<close> answers 500.
\<close>

definition agent_message_endpoint ::
  "vector_index \<Rightarrow> (string \<rightharpoonup> plugin) \<Rightarrow> fetch \<Rightarrow> session_memory \<Rightarrow> request_body option \<Rightarrow>
   http_response \<times> session_memory \<times> gemini_request list" where
  "agent_message_endpoint index registry fetch sessionMemory req_body =
     try_catch
       (case req_body of
          None \<Rightarrow> Inl TypeError
        | Some req \<Rightarrow> Inr (post_agent_message index registry fetch sessionMemory req))
       (\<lambda>error. (\<lparr> status_code = 500, body = ErrorBody ''Internal server error'' \<rparr>,
                  sessionMemory, []))"


section \<open>The specification's wording\<close>

text \<open>
  The context as the specification words it: three sections in the order documents,
  plugin output, history, each left out when its input is empty.
\<close>

definition newline :: string where
  "newline = [CHR 0x0A]"

definition blank_line :: string where
  "blank_line = [CHR 0x0A, CHR 0x0A]"

definition documents_section :: "retrieved_chunk list \<Rightarrow> string list" where
  "documents_section chunks =
     (if chunks = [] then []
      else ''Relevant Documents:'' #
           map (\<lambda>(i, chunk). ''[Document '' @ show_nat (i + 1) @ '' from '' @
                               chunk_source chunk @ '']: '' @ chunk_content chunk)
               (zip [0..<length chunks] chunks))"

definition plugin_section :: "string option \<Rightarrow> string list" where
  "plugin_section pluginResult =
     (case pluginResult of
        None \<Rightarrow> []
      | Some r \<Rightarrow> if r = [] then [] else [''Plugin Output: '' @ r])"

definition history_section :: "session_message list \<Rightarrow> string list" where
  "history_section history =
     (if history = [] then []
      else ''Conversation History:'' #
           map (\<lambda>msg. (if role msg = ''user'' then ''User'' else ''AI'') @ '': '' @ content msg)
               history)"

text \<open>
  \<open>assemble_spec\<close> follows the specification to the letter: the lines of a section follow
  one another, and the sections, and only they, are separated by a blank line.
\<close>

definition assemble_spec ::
  "retrieved_chunk list \<Rightarrow> string option \<Rightarrow> session_message list \<Rightarrow> string" where
  "assemble_spec chunks pluginResult history =
     join blank_line
       (map (join newline)
          (filter (\<lambda>lines. lines \<noteq> [])
             [documents_section chunks, plugin_section pluginResult, history_section history]))"

text \<open>
  A code unit is the trigger's letter in some casing when it is the letter itself or its
  capital, which for the lower-case ASCII letters of the trigger is 32 below it.
\<close>

definition same_letter :: "char \<Rightarrow> char \<Rightarrow> bool" where
  "same_letter t c = (c = t \<or> (of_char c :: nat) + 32 = of_char t)"


section \<open>Concrete collaborators\<close>

text \<open>
  An index whose embedding step fails, an index with no match, and a generation service
  that answers \<open>Hello\<close>. Then, with any JSON in the body: a service that cannot be
  reached, one that answers 503, one that answers without a candidate, one whose body
  is \<open>null\<close>, and one whose text is the number 42.
\<close>

definition failing_index :: vector_index where
  "failing_index = \<lparr> embed = (\<lambda>q. Inl (ServiceError ''embedding failed'')),
                      query = (\<lambda>v k. Inr None) \<rparr>"

definition empty_index :: vector_index where
  "empty_index = \<lparr> embed = (\<lambda>q. Inr []), query = (\<lambda>v k. Inr (Some [])) \<rparr>"

definition answer :: "string \<Rightarrow> gemini_data" where
  "answer t =
     \<lparr> candidates = Some [Some \<lparr> candidate_content =
         Some \<lparr> parts = Some [Some \<lparr> part_text = Some t \<rparr>] \<rparr> \<rparr>] \<rparr>"

definition answering_fetch :: fetch where
  "answering_fetch request =
     Inr \<lparr> ok = True, status = 200, response_text = Inr [],
           response_json = Inr (Some (answer ''Hello'')) \<rparr>"








definition sample_chunk :: retrieved_chunk where
  "sample_chunk = \<lparr> chunk_content = ''Markdown is a markup language.'',
                     chunk_source = ''notes.md'', chunk_score = 1 \<rparr>"


section \<open>Chunking\<close>

lemma substring_chunk:
  "i < length s \<Longrightarrow> substring s i (i + n) = take n (drop i s)"
  by (simp add: substring_def Let_def min_def max_def)

text \<open>
  From any position the loop returns, and what it appends is a cut of the rest of the
  text into pieces of the chunk size, none of them empty. The induction is on what is
  left of the text.
\<close>

lemma chunkText_loop_returns:
  assumes "0 < n"
  shows "\<exists>cs. chunkText_loop s n i acc = Some (acc @ cs) \<and> concat cs = drop i s \<and>
              [] \<notin> set cs \<and> (\<forall>c\<in>set cs. length c \<le> n) \<and>
              (\<forall>c\<in>set (butlast cs). length c = n)"
proof (induction "length s - i" arbitrary: i acc rule: less_induct)
  case less
  show ?case
  proof (cases "i < length s")
    case False
    then show ?thesis
      by (subst chunkText_loop.simps) simp
  next
    case True
    define c where "c = take n (drop i s)"
    from True assms have "length s - (i + n) < length s - i" by arith
    from less[OF this, of "acc @ [c]"] obtain cs where
      run: "chunkText_loop s n (i + n) (acc @ [c]) = Some ((acc @ [c]) @ cs)" and
      cat: "concat cs = drop (i + n) s" and
      ne: "[] \<notin> set cs" and
      le: "\<forall>c\<in>set cs. length c \<le> n" and
      eq: "\<forall>c\<in>set (butlast cs). length c = n"
      by blast
    have step: "chunkText_loop s n i acc = chunkText_loop s n (i + n) (acc @ [c])"
      using True by (subst chunkText_loop.simps) (simp add: substring_chunk c_def)
    have c_len: "length c = min n (length s - i)"
      by (simp add: c_def)
    have c_cat: "c @ drop (i + n) s = drop i s"
      by (simp add: c_def add.commute[of i n] flip: drop_drop)
    have full: "length c = n" if "cs \<noteq> []"
    proof -
      from that ne have "concat cs \<noteq> []" by (cases cs) auto
      with cat have "i + n < length s" by simp
      with c_len show ?thesis by simp
    qed
    have "chunkText_loop s n i acc = Some (acc @ (c # cs))"
      using step run by simp
    moreover have "concat (c # cs) = drop i s"
      using cat c_cat by simp
    moreover have "[] \<notin> set (c # cs)"
      using ne c_len True assms by auto
    moreover have "\<forall>x\<in>set (c # cs). length x \<le> n"
      using le c_len by simp
    moreover have "\<forall>x\<in>set (butlast (c # cs)). length x = n"
      using eq full by simp
    ultimately show ?thesis by blast
  qed
qed

text \<open>
  C8. For every text and every positive chunk size \<open>chunkText\<close> returns; every chunk it
  returns is at most the chunk size long, every chunk but the last is exactly the chunk
  size long, no chunk is empty, and the chunks in order concatenate to the text (so they
  do not overlap and leave nothing out).
\<close>

theorem chunkText_splits:
  "0 < chunkSize \<Longrightarrow>
   \<exists>chunks. chunkText text chunkSize = Some chunks \<and> concat chunks = text \<and>
     [] \<notin> set chunks \<and>
     (\<forall>c\<in>set chunks. length c \<le> chunkSize) \<and>
     (\<forall>c\<in>set (butlast chunks). length c = chunkSize)"
  using chunkText_loop_returns[of chunkSize "text" 0 "[]"] unfolding chunkText_def
  by auto

theorem chunkText_splits_witness:
  "(0::nat) < 2 \<and> chunkText ''abcde'' 2 = Some [''ab'', ''cd'', ''e''] \<and>
   (\<exists>chunks. chunkText ''abcde'' 2 = Some chunks \<and> concat chunks = ''abcde'' \<and>
      [] \<notin> set chunks \<and>
      (\<forall>c\<in>set chunks. length c \<le> 2) \<and> (\<forall>c\<in>set (butlast chunks). length c = 2))"
proof -
  have pos: "(0::nat) < 2" by simp
  have run: "chunkText ''abcde'' 2 = Some [''ab'', ''cd'', ''e'']"
    unfolding chunkText_def by (simp add: chunkText_loop.simps substring_def)
  from pos run chunkText_splits[OF pos, of "''abcde''"] show ?thesis by blast
qed


section \<open>The history window\<close>

lemma slice_last_two: "slice xs (- 2) = drop (length xs - 2) xs"
  by (simp add: slice_def Let_def max_def nat_diff_distrib')

text \<open>
  C7. Where the session's entry is a message sequence (a stored session, or none yet),
  the window that \<open>generateRAGResponse\<close> takes is the last two messages of the sequence
  as it stands, in their order: the sequence is some older part followed by the window,
  and the window has \<open>min 2 (length messages)\<close> entries, so never more than two and fewer
  only when the whole history is shorter. It is this window that goes into the context:
  when retrieval and the plugin step succeed, the answer is the generation client's on
  the context built from the chunks, the plugin output and the window.
\<close>

theorem history_window_last_two:
  assumes "getSessionMessages sessionMemory sessionId = Messages messages"
  shows "\<exists>window. lastTwoMessages (getSessionMessages sessionMemory sessionId) = Inr window \<and>
     window = drop (length messages - 2) messages \<and>
     length window = min 2 (length messages) \<and>
     (\<exists>older. messages = older @ window) \<and>
     (\<forall>i < length window. window ! i = messages ! (length messages - length window + i)) \<and>
     (\<forall>chunks pluginResult.
        getRelevantChunks index message 3 = Inr chunks \<and>
        run_plugin registry (detectPlugin message) message = Inr pluginResult \<longrightarrow>
        generateRAGResponse index registry fetch sessionMemory message sessionId =
          generateWithGemini fetch systemPrompt message
            (build_context chunks pluginResult window))"
proof -
  define window where "window = drop (length messages - 2) messages"
  have run: "lastTwoMessages (getSessionMessages sessionMemory sessionId) = Inr window"
    using assms by (simp add: lastTwoMessages_def slice_last_two window_def)
  have len: "length window = min 2 (length messages)"
    by (simp add: window_def min_def)
  have split: "messages = take (length messages - 2) messages @ window"
    by (simp add: window_def)
  have nth: "window ! i = messages ! (length messages - length window + i)"
    if "i < length window" for i
    using that by (simp add: window_def min_def)
  have passed: "generateRAGResponse index registry fetch sessionMemory message sessionId =
      generateWithGemini fetch systemPrompt message (build_context chunks pluginResult window)"
    if "getRelevantChunks index message 3 = Inr chunks \<and>
        run_plugin registry (detectPlugin message) message = Inr pluginResult"
    for chunks pluginResult
    using that run by (simp add: generateRAGResponse_def try_catch_def)
  from run len split nth passed show ?thesis
    unfolding window_def by blast
qed

lemma stored_session_lookup:
  "getSessionMessages (Map.empty(''t1'' \<mapsto> [a, b, c])) ''t1'' = Messages [a, b, c]"
  by (simp add: getSessionMessages_def)

theorem history_window_last_two_witness:
  "getSessionMessages
     (Map.empty(''t1'' \<mapsto>
        [\<lparr>role = ''user'', content = ''a''\<rparr>, \<lparr>role = ''assistant'', content = ''b''\<rparr>,
         \<lparr>role = ''user'', content = ''c''\<rparr>])) ''t1'' =
   Messages [\<lparr>role = ''user'', content = ''a''\<rparr>, \<lparr>role = ''assistant'', content = ''b''\<rparr>,
         \<lparr>role = ''user'', content = ''c''\<rparr>] \<and>
   lastTwoMessages (getSessionMessages
     (Map.empty(''t1'' \<mapsto>
        [\<lparr>role = ''user'', content = ''a''\<rparr>, \<lparr>role = ''assistant'', content = ''b''\<rparr>,
         \<lparr>role = ''user'', content = ''c''\<rparr>])) ''t1'') =
   Inr [\<lparr>role = ''assistant'', content = ''b''\<rparr>, \<lparr>role = ''user'', content = ''c''\<rparr>]"
  using history_window_last_two[OF stored_session_lookup[of
        "\<lparr>role = ''user'', content = ''a''\<rparr>" "\<lparr>role = ''assistant'', content = ''b''\<rparr>"
        "\<lparr>role = ''user'', content = ''c''\<rparr>"]]
    stored_session_lookup
  by simp


section \<open>Intent detection\<close>

lemma js_includes_sublist: "js_includes s search = sublist search s"
  by (induction s) (simp_all add: sublist_Cons_right)

lemma sublist_map_iff: "sublist t (map f s) \<longleftrightarrow> (\<exists>w. sublist w s \<and> map f w = t)"
proof
  assume "sublist t (map f s)"
  then obtain ps ss where "map f s = ps @ t @ ss" by (auto simp: sublist_def)
  then obtain ps' w ss' where "s = ps' @ w @ ss'" "map f w = t"
    by (auto simp: map_eq_append_conv append_eq_map_conv)
  then show "\<exists>w. sublist w s \<and> map f w = t" by (auto simp: sublist_def)
next
  assume "\<exists>w. sublist w s \<and> map f w = t"
  then obtain ps w ss where "s = ps @ w @ ss" "map f w = t" by (auto simp: sublist_def)
  then have "map f s = map f ps @ t @ map f ss" by simp
  then show "sublist t (map f s)" unfolding sublist_def by blast
qed

lemma of_char_toLowerCase_unit:
  "(of_char (toLowerCase_unit c) :: nat) =
     (if (65 \<le> (of_char c :: nat) \<and> (of_char c :: nat) \<le> 90) \<or>
         (192 \<le> (of_char c :: nat) \<and> (of_char c :: nat) \<le> 222 \<and> (of_char c :: nat) \<noteq> 215)
      then of_char c + 32 else of_char c)"
  by (auto simp: toLowerCase_unit_def Let_def)

text \<open>Only the letter and its capital are lowered to a letter of the trigger.\<close>

lemma toLowerCase_unit_letter:
  assumes "t \<in> set ''weather''"
  shows "toLowerCase_unit c = t \<longleftrightarrow> same_letter t c"
proof -
  define n :: nat where "n = of_char c"
  have "toLowerCase_unit c = t \<longleftrightarrow> (of_char (toLowerCase_unit c) :: nat) = of_char t"
    by simp
  moreover have "c = t \<longleftrightarrow> n = of_char t" by (simp add: n_def)
  moreover have "(of_char (toLowerCase_unit c) :: nat) = of_char t \<longleftrightarrow>
      n = of_char t \<or> n + 32 = of_char t"
    using assms unfolding of_char_toLowerCase_unit n_def[symmetric] by auto
  ultimately show ?thesis
    unfolding same_letter_def n_def by simp
qed

lemma lower_is_trigger:
  "map toLowerCase_unit w = ''weather'' \<longleftrightarrow> list_all2 same_letter ''weather'' w"
proof -
  have "map toLowerCase_unit w = ''weather'' \<longleftrightarrow>
        list_all2 (\<lambda>t c. toLowerCase_unit c = t) ''weather'' w"
    by (auto simp: list_all2_conv_all_nth list_eq_iff_nth_eq)
  also have "\<dots> \<longleftrightarrow> list_all2 same_letter ''weather'' w"
    by (rule list.rel_cong) (simp_all add: toLowerCase_unit_letter del: set_simps)
  finally show ?thesis .
qed

text \<open>
  C5. For every message \<open>detectPlugin\<close> answers \<open>weather\<close> exactly when some stretch of
  the message spells the trigger letter by letter, each letter in either casing, and
  \<open>null\<close> otherwise. It is a total function into \<open>string option\<close>: it has no exception to
  raise, and its \<open>catch\<close> answers \<open>null\<close>.
\<close>

theorem detectPlugin_weather:
  "detectPlugin message =
     (if (\<exists>w. sublist w message \<and> list_all2 same_letter ''weather'' w)
      then Some ''weather'' else None)"
  by (simp add: detectPlugin_def try_catch_def js_includes_sublist toLowerCase_def
      sublist_map_iff lower_is_trigger)

theorem detectPlugin_weather_witness:
  "detectPlugin ''Is the WeaTHer nice?'' = Some ''weather'' \<and> detectPlugin ''whether'' = None"
proof -
  have "sublist ''WeaTHer'' (''Is the '' @ ''WeaTHer'' @ '' nice?'')"
    by (rule sublist_appendI)
  moreover have "list_all2 same_letter ''weather'' ''WeaTHer''"
    by (simp add: same_letter_def)
  ultimately have
    "\<exists>w. sublist w ''Is the WeaTHer nice?'' \<and> list_all2 same_letter ''weather'' w"
    by auto
  then have "detectPlugin ''Is the WeaTHer nice?'' = Some ''weather''"
    using detectPlugin_weather[of "''Is the WeaTHer nice?''"] by simp
  moreover have "detectPlugin ''whether'' = None"
    by (simp add: detectPlugin_def try_catch_def toLowerCase_def toLowerCase_unit_def)
  ultimately show ?thesis by simp
qed


section \<open>Context assembly\<close>

lemma forEach_indexed_push:
  "forEach_indexed (\<lambda>ps x i. push ps (f i x)) xs k acc =
     acc @ map (\<lambda>(i, x). f i x) (zip [k..<k + length xs] xs)"
proof (induction xs arbitrary: k acc)
  case Nil
  then show ?case by simp
next
  case (Cons x xs)
  have "[k..<k + length (x # xs)] = k # [Suc k..<Suc k + length xs]"
    by (simp add: upt_rec)
  then show ?case
    using Cons.IH[of "Suc k" "push acc (f k x)"] by (simp add: push_def)
qed

lemma contextParts_sections:
  "contextParts chunks pluginResult history =
     documents_section chunks @ plugin_section pluginResult @ history_section history"
proof -
  have docs: "forEach_indexed (\<lambda>ps chunk i. push ps (document_line i chunk)) chunks 0 acc =
      acc @ map (\<lambda>(i, chunk). document_line i chunk) (zip [0..<length chunks] chunks)" for acc
    using forEach_indexed_push[of document_line chunks 0 acc] by simp
  have hist: "forEach_indexed (\<lambda>ps msg i. push ps (history_line msg)) history 0 acc =
      acc @ map history_line history" for acc
    using forEach_indexed_push[of "\<lambda>i. history_line" history 0 acc]
    by (simp add: map_snd_zip case_prod_unfold
        flip: map_map[of history_line snd, unfolded comp_def])
  show ?thesis
    unfolding contextParts_def Let_def docs hist documents_section_def plugin_section_def
      history_section_def
    by (simp add: push_def document_line_def[abs_def] history_line_def[abs_def]
        split: option.splits)
qed

text \<open>
  C3, as the code has it. The context is the lines of the documents section, of the plugin
  section and of the history section, in this order, each section left out when its input
  is empty (no chunk; no plugin output or an empty one; no message), and every line is
  separated from the next by a blank line: the header from its first line and a line from
  the next as much as a section from the next.
\<close>

theorem build_context_lines:
  "build_context chunks pluginResult history =
     join blank_line
       (documents_section chunks @ plugin_section pluginResult @ history_section history)"
  by (simp add: build_context_def contextParts_sections blank_line_def)

text \<open>
  C3 as stated fails: with one retrieved chunk the code puts a blank line between the
  header and the document line, where the specification's sections keep them on
  consecutive lines.
\<close>

theorem build_context_blank_lines_counterexample:
  "build_context [sample_chunk] None [] =
     ''Relevant Documents:'' @ [CHR 0x0A, CHR 0x0A] @
     ''[Document 1 from notes.md]: Markdown is a markup language.'' \<and>
   assemble_spec [sample_chunk] None [] =
     ''Relevant Documents:'' @ [CHR 0x0A] @
     ''[Document 1 from notes.md]: Markdown is a markup language.'' \<and>
   build_context [sample_chunk] None [] \<noteq> assemble_spec [sample_chunk] None []"
  by (simp add: build_context_def contextParts_def Let_def push_def document_line_def
      sample_chunk_def show_nat.simps digit_def assemble_spec_def documents_section_def
      plugin_section_def history_section_def blank_line_def newline_def)


section \<open>The generation client\<close>

lemma fallbacks_nonempty:
  "status_fallback \<noteq> []" "format_fallback \<noteq> []" "error_fallback \<noteq> []"
  by (simp_all add: status_fallback_def format_fallback_def error_fallback_def)

lemma missing_text_examples:
  "generatedText \<lparr> candidates = None \<rparr> = None"
  "generatedText \<lparr> candidates = Some [] \<rparr> = None"
  "generatedText \<lparr> candidates = Some [None] \<rparr> = None"
  "generatedText \<lparr> candidates = Some [Some \<lparr> candidate_content = None \<rparr>] \<rparr> = None"
  "generatedText (answer t) = Some t"
  by (simp_all add: generatedText_def first_element_def answer_def)

text \<open>
  On the responses that have the declared types the two models agree: the typed function
  returns the string that the function on JSON returns.
\<close>

lemma generatedText_json_typed:
  "generatedText_json (json_of_data d) = Inr (map_option JStr (generatedText d))"
  by (auto simp: generatedText_json_def json_of_data_def json_of_candidate_def
      json_of_content_def json_of_part_def generatedText_def first_element_def optional_def
      property_def element0_def nullable_def
      split: option.splits list.splits json.splits)

lemma generateWithGemini_typed_reading:
  "generateWithGemini_json (json_of_fetch fetch) prompt message ctx =
     (JStr (fst (generateWithGemini fetch prompt message ctx)),
      snd (generateWithGemini fetch prompt message ctx))"
  by (auto simp: generateWithGemini_json_def generateWithGemini_def json_of_fetch_def Let_def
      try_catch_def generatedText_json_typed nullable_def truthy_def
      generatedText_json_def[of JNull]
      split: sum.splits option.splits)





lemma generateWithGemini_nonempty:
  "fst (generateWithGemini fetch prompt message ctx) \<noteq> []"
  by (simp add: generateWithGemini_def try_catch_def Let_def fallbacks_nonempty
      split: sum.splits option.splits)

lemma generateRAGResponse_nonempty:
  "fst (generateRAGResponse index registry fetch sessionMemory message sessionId) \<noteq> []"
proof -
  have "a \<noteq> []" if "generateWithGemini fetch systemPrompt message ctx = (a, b)" for a b ctx
    using generateWithGemini_nonempty[of fetch systemPrompt message ctx] that by simp
  then show ?thesis
    by (auto simp: generateRAGResponse_def try_catch_def fallbacks_nonempty split: sum.splits)
qed

lemma answering_fetch_text:
  "generateWithGemini answering_fetch prompt message ctx =
     (''Hello'', [gemini_request_of prompt message ctx])"
  by (simp add: generateWithGemini_def answering_fetch_def try_catch_def generatedText_def
      first_element_def answer_def)


section \<open>The endpoint\<close>

lemma agent_message_endpoint_parsed:
  "agent_message_endpoint index registry fetch sessionMemory (Some req) =
     post_agent_message index registry fetch sessionMemory req"
  by (simp add: agent_message_endpoint_def try_catch_def)

text \<open>
  C4 does not hold of the code. A request that carries no JSON body has neither field;
  where the middleware leaves \<open>req.body\<close> undefined the destructuring throws before the
  guard is reached, and the endpoint answers 500 with \<open>Internal server error\<close>, not 400
  with the validation error. The session memory is as it was and nothing is sent.
\<close>

theorem unparsed_body_answers_500:
  "agent_message_endpoint index registry fetch sessionMemory None =
     (\<lparr> status_code = 500, body = ErrorBody ''Internal server error'' \<rparr>, sessionMemory, [])"
  by (simp add: agent_message_endpoint_def try_catch_def)

text \<open>
  Where the body is an object, a request without its message or without its session id
  is answered 400 with the validation error; the session memory is returned as it was
  and nothing is sent to the generation service.
\<close>

lemma missing_field_rejected:
  "message_field req = None \<or> session_id_field req = None \<Longrightarrow>
   post_agent_message index registry fetch sessionMemory req =
     (\<lparr> status_code = 400, body = ErrorBody ''Both message and session_id are required'' \<rparr>,
      sessionMemory, [])"
  by (auto simp: post_agent_message_def falsy_def)

lemma missing_field_rejected_example:
  "session_id_field \<lparr> message_field = Some ''hi'', session_id_field = None \<rparr> = None \<and>
   post_agent_message empty_index plugins answering_fetch
     [''t1'' \<mapsto> [\<lparr> role = ''user'', content = ''a'' \<rparr>]]
     \<lparr> message_field = Some ''hi'', session_id_field = None \<rparr> =
   (\<lparr> status_code = 400, body = ErrorBody ''Both message and session_id are required'' \<rparr>,
    [''t1'' \<mapsto> [\<lparr> role = ''user'', content = ''a'' \<rparr>]], [])"
  using missing_field_rejected[of "\<lparr> message_field = Some ''hi'', session_id_field = None \<rparr>"
      empty_index plugins answering_fetch "[''t1'' \<mapsto> [\<lparr> role = ''user'', content = ''a'' \<rparr>]]"]
  by simp

text \<open>
  C9. A request whose message or session id is present and is the empty string is
  answered in the same way: 400 with the validation error, the session memory as it was,
  nothing sent.
\<close>

theorem empty_field_rejected:
  "message_field req = Some [] \<or> session_id_field req = Some [] \<Longrightarrow>
   post_agent_message index registry fetch sessionMemory req =
     (\<lparr> status_code = 400, body = ErrorBody ''Both message and session_id are required'' \<rparr>,
      sessionMemory, [])"
  by (auto simp: post_agent_message_def falsy_def)

theorem empty_field_rejected_witness:
  "message_field \<lparr> message_field = Some [], session_id_field = Some ''t1'' \<rparr> = Some [] \<and>
   post_agent_message empty_index plugins answering_fetch
     [''t1'' \<mapsto> [\<lparr> role = ''user'', content = ''a'' \<rparr>]]
     \<lparr> message_field = Some [], session_id_field = Some ''t1'' \<rparr> =
   (\<lparr> status_code = 400, body = ErrorBody ''Both message and session_id are required'' \<rparr>,
    [''t1'' \<mapsto> [\<lparr> role = ''user'', content = ''a'' \<rparr>]], [])"
  using empty_field_rejected[of "\<lparr> message_field = Some [], session_id_field = Some ''t1'' \<rparr>"
      empty_index plugins answering_fetch "[''t1'' \<mapsto> [\<lparr> role = ''user'', content = ''a'' \<rparr>]]"]
  by simp

lemma addMessageToSession_stored:
  "getSessionMessages mem sid = Messages old \<Longrightarrow>
   addMessageToSession mem sid m = Inr (mem(sid \<mapsto> old @ [m]))"
  by (simp add: addMessageToSession_def)

lemma getSessionMessages_update:
  "getSessionMessages (mem(sid \<mapsto> xs)) sid = Messages xs"
  by (simp add: getSessionMessages_def)

lemma new_session_lookup: "getSessionMessages Map.empty ''t1'' = Messages []"
  by (simp add: getSessionMessages_def Object_prototype_keys_def)

text \<open>
  What a request that passes validation does when its session id is a stored session or
  a fresh key that \<open>Object.prototype\<close> does not know, given what \<open>generateRAGResponse\<close>
  answers: the user message and then the answer are appended, and the answer is sent with
  status 200.
\<close>

lemma post_agent_message_valid:
  assumes "message \<noteq> []" "sid \<noteq> []" "getSessionMessages mem sid = Messages old"
    and gen: "generateRAGResponse index registry fetch
           (mem(sid \<mapsto> old @ [\<lparr> role = ''user'', content = message \<rparr>])) message sid =
         (response, sent)"
  shows "post_agent_message index registry fetch mem
           \<lparr> message_field = Some message, session_id_field = Some sid \<rparr> =
       (\<lparr> status_code = 200, body = ResponseBody response \<rparr>,
        mem(sid \<mapsto> old @ [\<lparr> role = ''user'', content = message \<rparr>,
                            \<lparr> role = ''assistant'', content = response \<rparr>]),
        sent)"
proof -
  define mem1 where "mem1 = mem(sid \<mapsto> old @ [\<lparr> role = ''user'', content = message \<rparr>])"
  have a1: "addMessageToSession mem sid \<lparr> role = ''user'', content = message \<rparr> = Inr mem1"
    using assms(3) by (simp add: addMessageToSession_stored mem1_def)
  have a2: "addMessageToSession mem1 sid \<lparr> role = ''assistant'', content = response \<rparr> =
      Inr (mem(sid \<mapsto> old @ [\<lparr> role = ''user'', content = message \<rparr>,
                            \<lparr> role = ''assistant'', content = response \<rparr>]))"
    unfolding mem1_def by (simp add: addMessageToSession_stored[OF getSessionMessages_update])
  show ?thesis
    using assms(1,2) gen[folded mem1_def]
    by (simp add: post_agent_message_def falsy_def a1 a2)
qed

lemma valid_request_appends_pair:
  assumes "message \<noteq> []" "sid \<noteq> []" "getSessionMessages mem sid = Messages old"
  shows "\<exists>response sent. response \<noteq> [] \<and>
     post_agent_message index registry fetch mem
       \<lparr> message_field = Some message, session_id_field = Some sid \<rparr> =
       (\<lparr> status_code = 200, body = ResponseBody response \<rparr>,
        mem(sid \<mapsto> old @ [\<lparr> role = ''user'', content = message \<rparr>,
                            \<lparr> role = ''assistant'', content = response \<rparr>]),
        sent)"
proof -
  define mem1 where "mem1 = mem(sid \<mapsto> old @ [\<lparr> role = ''user'', content = message \<rparr>])"
  obtain response sent where
    gen: "generateRAGResponse index registry fetch mem1 message sid = (response, sent)"
    by (cases "generateRAGResponse index registry fetch mem1 message sid") auto
  have "response \<noteq> []"
    using generateRAGResponse_nonempty[of index registry fetch mem1 message sid] gen by simp
  with post_agent_message_valid[OF assms gen[unfolded mem1_def]] show ?thesis
    by blast
qed

text \<open>
  No request removes or reorders what a session holds: whatever the request and its
  answer, each stored sequence is a prefix of the sequence stored afterwards.
\<close>

lemma addMessageToSession_append_only:
  assumes "addMessageToSession mem sid m = Inr mem'" "mem k = Some xs"
  shows "\<exists>ys. mem' k = Some (xs @ ys)"
  using assms
  by (cases "k = sid")
     (auto simp: addMessageToSession_def getSessionMessages_def
       split: session_value.splits option.splits if_splits)

lemma post_agent_message_append_only:
  assumes "post_agent_message index registry fetch mem req = (res, mem', sent)"
    and "mem k = Some xs"
  shows "\<exists>ys. mem' k = Some (xs @ ys)"
proof (cases "falsy (message_field req) \<or> falsy (session_id_field req)")
  case True
  with assms show ?thesis by (auto simp: post_agent_message_def)
next
  case False
  define message where "message = the (message_field req)"
  define sid where "sid = the (session_id_field req)"
  show ?thesis
  proof (cases "addMessageToSession mem sid \<lparr> role = ''user'', content = message \<rparr>")
    case (Inl e)
    with False assms show ?thesis
      by (auto simp: post_agent_message_def message_def sid_def)
  next
    case (Inr mem1)
    from addMessageToSession_append_only[OF Inr assms(2)] obtain ys1 where
      m1: "mem1 k = Some (xs @ ys1)" by blast
    obtain response sent' where
      gen: "generateRAGResponse index registry fetch mem1 message sid = (response, sent')"
      by (cases "generateRAGResponse index registry fetch mem1 message sid") auto
    show ?thesis
    proof (cases "addMessageToSession mem1 sid \<lparr> role = ''assistant'', content = response \<rparr>")
      case (Inl e)
      with False Inr gen assms(1) have "mem' = mem1"
        by (auto simp: post_agent_message_def message_def sid_def)
      with m1 show ?thesis by blast
    next
      case Inr2: (Inr mem2)
      from addMessageToSession_append_only[OF Inr2 m1] obtain ys2 where
        "mem2 k = Some ((xs @ ys1) @ ys2)" by blast
      moreover from False Inr gen Inr2 assms(1) have "mem' = mem2"
        by (auto simp: post_agent_message_def message_def sid_def)
      ultimately show ?thesis by auto
    qed
  qed
qed

text \<open>
  C10 does not hold of the code. A request that passes validation with the session id
  \<open>constructor\<close> finds \<open>Object.prototype.constructor\<close> under that key of the empty
  session memory; spreading it throws, the endpoint answers 500, and no message is
  appended: neither the user's nor an assistant's. For a session id that is a stored
  session or a fresh key unknown to \<open>Object.prototype\<close> the two messages are appended
  (\<open>valid_request_appends_pair\<close>), and no request shortens a session
  (\<open>post_agent_message_append_only\<close>).
\<close>

theorem prototype_key_session_fails:
  "post_agent_message index registry fetch Map.empty
     \<lparr> message_field = Some ''hi'', session_id_field = Some ''constructor'' \<rparr> =
   (\<lparr> status_code = 500, body = ErrorBody ''Internal server error'' \<rparr>, Map.empty, [])"
  by (simp add: post_agent_message_def falsy_def addMessageToSession_def getSessionMessages_def
      Object_prototype_keys_def)


section \<open>Failures of retrieval and the plugin step\<close>

lemma generateRAGResponse_retrieval_failure:
  "getRelevantChunks index message 3 = Inl e \<Longrightarrow>
   generateRAGResponse index registry fetch sessionMemory message sessionId =
     (error_fallback, [])"
  by (simp add: generateRAGResponse_def try_catch_def)

lemma generateRAGResponse_plugin_failure:
  "run_plugin registry (detectPlugin message) message = Inl e \<Longrightarrow>
   generateRAGResponse index registry fetch sessionMemory message sessionId =
     (error_fallback, [])"
  by (simp add: generateRAGResponse_def try_catch_def split: sum.splits)

lemma failing_index_raises:
  "getRelevantChunks failing_index q k = Inl (ServiceError ''embedding failed'')"
  by (simp add: getRelevantChunks_def failing_index_def try_catch_def)

lemma empty_index_answers: "getRelevantChunks empty_index q k = Inr []"
  by (simp add: getRelevantChunks_def empty_index_def try_catch_def)

lemma no_plugin_for_hi: "detectPlugin ''hi'' = None"
  by (simp add: detectPlugin_def try_catch_def toLowerCase_def toLowerCase_unit_def)

lemma weather_detected: "detectPlugin ''weather today'' = Some ''weather''"
  by (simp add: detectPlugin_def try_catch_def toLowerCase_def toLowerCase_unit_def)

text \<open>
  C2 speaks of a plugin whose invocation raises. The registry of the source is a constant
  with the one plugin \<open>weather\<close>, which returns a string for every message: with it the
  plugin step never raises, and a message that triggers it gets its plugin section.
\<close>

lemma shipped_plugins_never_raise:
  "run_plugin plugins (detectPlugin message) message \<noteq> Inl e"
  by (simp add: run_plugin_def plugins_def weather_def detectPlugin_def try_catch_def)

lemma shipped_plugin_step:
  "run_plugin plugins (detectPlugin message) message =
     Inr (case detectPlugin message of
            None \<Rightarrow> None
          | Some name \<Rightarrow>
              Some (''Weather in '' @ message @ '': 24'' @ [CHR 0xB0] @ ''C, Sunny''))"
  by (simp add: run_plugin_def plugins_def weather_def detectPlugin_def try_catch_def)

text \<open>
  C1, as the code has it. When \<open>getRelevantChunks\<close> throws, \<open>generateRAGResponse\<close> catches
  the error and returns the error fallback; it builds no context and sends nothing to the
  generation service. The request does not crash: with a message and a session id that
  is a stored session or a fresh ordinary key, the endpoint answers 200 with the
  fallback and appends the user message and the fallback to the session.
\<close>

theorem retrieval_failure_absorbed:
  assumes "getRelevantChunks index message 3 = Inl e"
  shows "generateRAGResponse index registry fetch sessionMemory message sessionId =
           (error_fallback, []) \<and>
         (message \<noteq> [] \<and> sessionId \<noteq> [] \<and>
          getSessionMessages sessionMemory sessionId = Messages old \<longrightarrow>
          post_agent_message index registry fetch sessionMemory
            \<lparr> message_field = Some message, session_id_field = Some sessionId \<rparr> =
          (\<lparr> status_code = 200, body = ResponseBody error_fallback \<rparr>,
           sessionMemory(sessionId \<mapsto> old @ [\<lparr> role = ''user'', content = message \<rparr>,
              \<lparr> role = ''assistant'', content = error_fallback \<rparr>]),
           []))"
  using assms
  by (simp add: generateRAGResponse_retrieval_failure post_agent_message_valid)

theorem retrieval_failure_absorbed_witness:
  "getRelevantChunks failing_index ''hi'' 3 = Inl (ServiceError ''embedding failed'') \<and>
   post_agent_message failing_index plugins answering_fetch Map.empty
     \<lparr> message_field = Some ''hi'', session_id_field = Some ''t1'' \<rparr> =
   (\<lparr> status_code = 200, body = ResponseBody error_fallback \<rparr>,
    [''t1'' \<mapsto> [\<lparr> role = ''user'', content = ''hi'' \<rparr>,
                 \<lparr> role = ''assistant'', content = error_fallback \<rparr>]],
    [])"
  using retrieval_failure_absorbed[where index = failing_index and message = "''hi''" and
      registry = plugins and fetch = answering_fetch and sessionMemory = Map.empty and
      sessionId = "''t1''" and old = "[]", OF failing_index_raises]
    failing_index_raises[of "''hi''" 3] new_session_lookup
  by simp

text \<open>
  C1 as stated fails: with an index whose embedding step throws, nothing is sent to the
  generation service and the answer is the fallback, while with an index that finds no
  chunk the service is called with the context of zero chunks and its answer is returned.
\<close>

theorem retrieval_failure_counterexample:
  "getRelevantChunks failing_index ''hi'' 3 = Inl (ServiceError ''embedding failed'') \<and>
   generateRAGResponse failing_index plugins answering_fetch Map.empty ''hi'' ''t1'' =
     (error_fallback, []) \<and>
   generateRAGResponse empty_index plugins answering_fetch Map.empty ''hi'' ''t1'' =
     (''Hello'', [gemini_request_of systemPrompt ''hi'' []])"
  by (simp add: generateRAGResponse_def try_catch_def failing_index_raises empty_index_answers
      new_session_lookup lastTwoMessages_def slice_def no_plugin_for_hi run_plugin_def
      answering_fetch_text build_context_def contextParts_def)

end
